theory Spec2Isabelle
  imports Complex_Main
begin

section \<open>The strategy script \<^verbatim>\<open>BollingerBandsForexAlgorithm\<close>\<close>

text \<open>
  The script is one class with two methods, \<^verbatim>\<open>Initialize\<close> and \<^verbatim>\<open>TradeLogic\<close>.
  Everything else it touches belongs to the hosting framework: the parameter store
  (\<^verbatim>\<open>GetParameter\<close>), the price feed (\<^verbatim>\<open>Securities\<close>), the portfolio, the
  Bollinger Bands indicator object (\<^verbatim>\<open>self.bb\<close>) and the order calls. What the script
  reads from the host is an input of the model; what it asks the host to do is appended to
  a log of calls, in the order the script makes them. Whether the host raises on a call
  of \<^verbatim>\<open>Initialize\<close> is an input of the model too; the orders and debug lines of
  \<^verbatim>\<open>TradeLogic\<close> are taken to return. Prices and band values are Python floats in the
  script and real numbers here.
\<close>

subsection \<open>Host calls\<close>

text \<open>
  The two \<^verbatim>\<open>Debug\<close> lines format the price and a band value into a string; the model
  keeps the two numbers.
\<close>

datatype message =
    Long_Entry real real
  | Exit_Msg real real

datatype call =
    SetStartDate int int int
  | SetEndDate int int int
  | SetCash int
  | AddForex string
  | BB string int real
  | SetWarmUp int
  | Schedule_TradeLogic string
  | SetHoldings string real
  | Liquidate string
  | Debug message

subsection \<open>The object and what it reads on a tick\<close>

text \<open>
  \<^verbatim>\<open>self.symbol\<close> is the \<^verbatim>\<open>Symbol\<close> of the security \<^verbatim>\<open>AddForex\<close> returns; the model
  identifies it with the pair's name.
\<close>

record algo =
  currencyPair :: string
  bb_period :: int
  bb_stddev :: real
  symbol :: string
  calls :: "call list"

record band =
  MiddleBand :: real
  UpperBand :: real
  LowerBand :: real

text \<open>
  \<^verbatim>\<open>self.IsWarmingUp\<close>, \<^verbatim>\<open>self.Securities[s].Price\<close>, \<^verbatim>\<open>self.Portfolio[s].Invested\<close> and
  the current values of \<^verbatim>\<open>self.bb\<close>, as the host presents them when \<^verbatim>\<open>TradeLogic\<close> runs.
\<close>

record host =
  IsWarmingUp :: bool
  Price :: "string \<Rightarrow> real"
  Invested :: "string \<Rightarrow> bool"
  bb :: band

subsection \<open>\<^verbatim>\<open>Initialize\<close>\<close>

text \<open>
  \<^verbatim>\<open>int()\<close> and \<^verbatim>\<open>float()\<close> are Python built-ins, not code of the script: they are
  parameters of the model, returning \<open>None\<close> where the built-in raises \<^verbatim>\<open>ValueError\<close>.
  \<^verbatim>\<open>GetParameter\<close> returns the parameter's string, or \<^verbatim>\<open>None\<close> when it is not set.
  The host's part in the calls is a parameter as well: \<open>raises c\<close> says that the host
  raises on the call \<open>c\<close>. The script catches nothing, so an exception of a conversion or
  of the host abandons \<^verbatim>\<open>Initialize\<close>, and the result is that error. The logged calls
  keep the arguments that vary; the constant ones (resolution, market, moving average
  type, the date and time rules of the schedule) are left out.
\<close>

datatype error =
    ValueError_int string
  | ValueError_float string
  | Host_raised call

text \<open>
  Making the given calls in order, each appended to the log when the host returns from it;
  the first call on which the host raises ends the run.
\<close>

fun perform :: "(call \<Rightarrow> bool) \<Rightarrow> call list \<Rightarrow> call list \<Rightarrow> error + call list" where
  "perform raises made [] = Inr made"
| "perform raises made (c # cs) =
     (if raises c then Inl (Host_raised c) else perform raises (made @ [c]) cs)"

definition Initialize ::
  "(string \<Rightarrow> int option) \<Rightarrow> (string \<Rightarrow> real option) \<Rightarrow> (call \<Rightarrow> bool)
     \<Rightarrow> (string \<Rightarrow> string option) \<Rightarrow> error + algo" where
  "Initialize py_int py_float raises GetParameter =
     (case perform raises []
             [SetStartDate 2022 1 1, SetEndDate 2022 12 31, SetCash 100000] of
        Inl e \<Rightarrow> Inl e
      | Inr made \<Rightarrow>
          (let pair = (case GetParameter ''pair'' of
                         None \<Rightarrow> ''EURUSD''
                       | Some p \<Rightarrow> if p = [] then ''EURUSD'' else p);
               bb_period_param = GetParameter ''bb_period'';
               bb_stddev_param = GetParameter ''bb_stddev''
           in case (case bb_period_param of
                      None \<Rightarrow> Inr 20
                    | Some v \<Rightarrow> (case py_int v of
                                  None \<Rightarrow> Inl (ValueError_int v)
                                | Some n \<Rightarrow> Inr n)) of
                Inl e \<Rightarrow> Inl e
              | Inr period \<Rightarrow>
                  (case (case bb_stddev_param of
                           None \<Rightarrow> Inr 2
                         | Some v \<Rightarrow> (case py_float v of
                                       None \<Rightarrow> Inl (ValueError_float v)
                                     | Some x \<Rightarrow> Inr x)) of
                     Inl e \<Rightarrow> Inl e
                   | Inr stddev \<Rightarrow>
                       (case perform raises made
                               [AddForex pair,
                                BB pair period stddev,
                                SetWarmUp period,
                                Schedule_TradeLogic pair] of
                          Inl e \<Rightarrow> Inl e
                        | Inr made' \<Rightarrow>
                            Inr \<lparr> currencyPair = pair,
                                  bb_period = period,
                                  bb_stddev = stddev,
                                  symbol = pair,
                                  calls = made' \<rparr>))))"

subsection \<open>\<^verbatim>\<open>TradeLogic\<close>\<close>

definition TradeLogic :: "host \<Rightarrow> algo \<Rightarrow> algo" where
  "TradeLogic h self =
     (if IsWarmingUp h then self
      else
        let price = Price h (symbol self) in
        if \<not> Invested h (symbol self) \<and> price < LowerBand (bb h) then
          self\<lparr>calls := calls self @
                  [SetHoldings (symbol self) 1,
                   Debug (Long_Entry price (LowerBand (bb h)))]\<rparr>
        else if Invested h (symbol self) \<and> price > MiddleBand (bb h) then
          self\<lparr>calls := calls self @
                  [Liquidate (symbol self),
                   Debug (Exit_Msg price (MiddleBand (bb h)))]\<rparr>
        else self)"

text \<open>The calls one run of \<^verbatim>\<open>TradeLogic\<close> adds to the log.\<close>

definition issued :: "host \<Rightarrow> algo \<Rightarrow> call list" where
  "issued h self = drop (length (calls self)) (calls (TradeLogic h self))"

fun is_entry :: "call \<Rightarrow> bool" where
  "is_entry (SetHoldings s t) = True"
| "is_entry c = False"

fun is_exit :: "call \<Rightarrow> bool" where
  "is_exit (Liquidate s) = True"
| "is_exit c = False"

definition is_order :: "call \<Rightarrow> bool" where
  "is_order c = (is_entry c \<or> is_exit c)"

subsection \<open>The decision of a tick\<close>

datatype Decision = ENTER | EXIT | HOLD

text \<open>
  The decision the script took on a tick, read off the orders it issued: an entry order
  is ENTER, a liquidation is EXIT, no order is HOLD.
\<close>

definition decision :: "host \<Rightarrow> algo \<Rightarrow> Decision" where
  "decision h self =
     (if list_ex is_entry (issued h self) then ENTER
      else if list_ex is_exit (issued h self) then EXIT
      else HOLD)"

text \<open>
  The evaluator as the specification words it, to compare \<open>decision\<close> with: first, not
  invested and the price below the lower band is ENTER; otherwise invested and the price
  above the middle band is EXIT; otherwise HOLD.
\<close>

definition spec_evaluate :: "real \<Rightarrow> band \<Rightarrow> bool \<Rightarrow> Decision" where
  "spec_evaluate price b invested =
     (if \<not> invested \<and> price < LowerBand b then ENTER
      else if invested \<and> price > MiddleBand b then EXIT
      else HOLD)"

subsection \<open>Sample ticks\<close>

text \<open>
  A freshly initialised object with the default pair, and a tick on which the band is
  middle 11, upper 13.83, lower 8.17 (the band of the window 10, 10, 13 with period 3 and
  multiplier 2, rounded to two places).
\<close>

definition sample_algo :: algo where
  "sample_algo =
     \<lparr> currencyPair = ''EURUSD'', bb_period = 3, bb_stddev = 2, symbol = ''EURUSD'',
       calls = [] \<rparr>"

definition sample_tick :: "bool \<Rightarrow> real \<Rightarrow> bool \<Rightarrow> host" where
  "sample_tick warming p held =
     \<lparr> IsWarmingUp = warming, Price = (\<lambda>s. p), Invested = (\<lambda>s. held),
       bb = \<lparr> MiddleBand = 11, UpperBand = 1383 / 100, LowerBand = 817 / 100 \<rparr> \<rparr>"

section \<open>Values for the built-ins and the host\<close>

text \<open>
  A model of \<^verbatim>\<open>int()\<close> on strings of ASCII characters, to have the built-in at hand on
  concrete parameter values. It strips surrounding whitespace (tab, line feed, vertical
  tab, form feed, carriage return, space), takes one optional sign, and reads a group of
  digits in which single underscores may separate digits. A string that is not of this
  form has no value: the built-in raises \<^verbatim>\<open>ValueError\<close>. The interpreter's limit on the
  number of digits is not modelled.
\<close>

definition is_space :: "char \<Rightarrow> bool" where
  "is_space c = (c \<in> set [CHR 0x09, CHR 0x0A, CHR 0x0B, CHR 0x0C, CHR 0x0D,
                            CHR '' ''])"

definition is_digit :: "char \<Rightarrow> bool" where
  "is_digit c = (c \<in> set ''0123456789'')"

definition digit_value :: "char \<Rightarrow> int" where
  "digit_value c = int (of_char c) - 48"

definition strip :: "string \<Rightarrow> string" where
  "strip s = rev (dropWhile is_space (rev (dropWhile is_space s)))"

fun digits :: "int \<Rightarrow> string \<Rightarrow> int option" where
  "digits acc [] = Some acc"
| "digits acc (c # cs) =
     (if is_digit c then digits (10 * acc + digit_value c) cs
      else if c = CHR ''_'' \<and> cs \<noteq> [] \<and> is_digit (hd cs) then digits acc cs
      else None)"

definition digit_part :: "string \<Rightarrow> int option" where
  "digit_part s = (if s \<noteq> [] \<and> is_digit (hd s) then digits 0 s else None)"

definition signed :: "(string \<Rightarrow> 'a option) \<Rightarrow> ('a \<Rightarrow> 'a) \<Rightarrow> string \<Rightarrow> 'a option" where
  "signed body neg s =
     (case s of
        [] \<Rightarrow> None
      | c # cs \<Rightarrow>
          if c = CHR ''-'' then map_option neg (body cs)
          else if c = CHR ''+'' then body cs
          else body s)"

definition int_of_str :: "string \<Rightarrow> int option" where
  "int_of_str s = signed digit_part uminus (strip s)"

text \<open>
  \<^verbatim>\<open>float()\<close> is not modelled: its value is a binary float, rounded, and possibly
  infinite or not a number. An example below converts at most one of five strings, and
  \<open>sample_float\<close> is \<^verbatim>\<open>float()\<close> on these five: \<^verbatim>\<open>float('-1.5')\<close> is -1.5,
  \<^verbatim>\<open>float('2.5')\<close> is 2.5 and \<^verbatim>\<open>float('0')\<close> is 0, all three exact, and \<^verbatim>\<open>float('')\<close>
  and \<^verbatim>\<open>float('abc')\<close> raise \<^verbatim>\<open>ValueError\<close>. On any other string \<open>sample_float\<close>
  says nothing about \<^verbatim>\<open>float()\<close>.
\<close>

definition sample_float :: "string \<Rightarrow> real option" where
  "sample_float s = map_of [(''-1.5'', - 3 / 2), (''2.5'', 5 / 2), (''0'', 0)] s"

text \<open>
  Two hosts: one that returns from every call, and one whose \<^verbatim>\<open>BB\<close> constructor raises
  when the period is below 1 and that returns from every other call.
\<close>

definition never_raises :: "call \<Rightarrow> bool" where
  "never_raises c = False"

fun raises_below_one :: "call \<Rightarrow> bool" where
  "raises_below_one (BB s p k) = (p < 1)"
| "raises_below_one c = False"

text \<open>A parameter store holding the given name and value pairs, and nothing else.\<close>

definition parameters :: "(string \<times> string) list \<Rightarrow> string \<Rightarrow> string option" where
  "parameters kvs = map_of kvs"

text \<open>
  The object \<^verbatim>\<open>Initialize\<close> returns when it runs to its end with the given pair,
  period and multiplier, and the three settings of an outcome of \<^verbatim>\<open>Initialize\<close>.
\<close>

definition initialized :: "string \<Rightarrow> int \<Rightarrow> real \<Rightarrow> algo" where
  "initialized pair p k =
     \<lparr> currencyPair = pair, bb_period = p, bb_stddev = k, symbol = pair,
       calls = [SetStartDate 2022 1 1, SetEndDate 2022 12 31, SetCash 100000,
                AddForex pair, BB pair p k, SetWarmUp p, Schedule_TradeLogic pair] \<rparr>"

definition settings :: "algo \<Rightarrow> string \<times> int \<times> real" where
  "settings a = (currencyPair a, bb_period a, bb_stddev a)"

definition outcome :: "error + algo \<Rightarrow> error + string \<times> int \<times> real" where
  "outcome r = map_sum id settings r"

section \<open>The rolling band indicator\<close>

text \<open>
  The script creates its Bollinger Bands indicator with \<^verbatim>\<open>self.BB(...)\<close> and reads it
  through \<^verbatim>\<open>self.bb.LowerBand.Current.Value\<close> and \<^verbatim>\<open>self.bb.MiddleBand.Current.Value\<close>. The
  indicator's class is the hosting framework's and is not among the script's sources. The
  definitions of this section follow the specification's description of it, the
  \<^verbatim>\<open>RollingBandIndicator\<close>, over real numbers.
\<close>

text \<open>
  Modelled from the spec: the two errors of the indicator, \<^verbatim>\<open>InvalidParameter\<close> raised
  at construction and \<^verbatim>\<open>NotReady\<close> raised by the band accessors. The indicator's code is
  missing from the sources.
\<close>

datatype indicator_error = InvalidParameter | NotReady

text \<open>
  Modelled from the spec: the indicator's data, missing from the sources. \<open>period\<close> is
  the lookback window size and \<open>multiplier\<close> the dispersion scale, both fixed at
  construction; \<open>window\<close> holds the most recent observations, oldest first; \<open>ready\<close> is
  true once the window has received \<open>period\<close> observations.
\<close>

record RollingBandIndicator =
  period :: int
  multiplier :: real
  window :: "real list"
  ready :: bool

text \<open>
  Modelled from the spec: \<^verbatim>\<open>construct(period, multiplier)\<close>, missing from the sources.
  It fails with \<^verbatim>\<open>InvalidParameter\<close> if \<^verbatim>\<open>period <= 0\<close> or \<^verbatim>\<open>multiplier <= 0\<close>, and
  otherwise returns an indicator with an empty window that is not ready.
\<close>

definition construct :: "int \<Rightarrow> real \<Rightarrow> indicator_error + RollingBandIndicator" where
  "construct p k =
     (if p \<le> 0 \<or> k \<le> 0 then Inl InvalidParameter
      else Inr \<lparr> period = p, multiplier = k, window = [], ready = False \<rparr>)"

text \<open>
  Modelled from the spec: \<^verbatim>\<open>observe(price)\<close>, missing from the sources. It appends the
  price to the window, evicting the oldest element if the window already holds \<open>period\<close>
  elements, and sets \<open>ready\<close> when the window reaches \<open>period\<close> elements.
\<close>

definition observe :: "real \<Rightarrow> RollingBandIndicator \<Rightarrow> RollingBandIndicator" where
  "observe price r =
     (let kept = (if int (length (window r)) = period r then tl (window r) else window r);
          w = kept @ [price]
      in r\<lparr>window := w, ready := (ready r \<or> int (length w) = period r)\<rparr>)"

text \<open>Modelled from the spec: \<^verbatim>\<open>is_ready()\<close>, missing from the sources.\<close>

definition is_ready :: "RollingBandIndicator \<Rightarrow> bool" where
  "is_ready r = ready r"

text \<open>
  Modelled from the spec: the derived mean of the window, computed on demand. The code
  that computes it is missing from the sources.
\<close>

definition mean :: "RollingBandIndicator \<Rightarrow> real" where
  "mean r = sum_list (window r) / real (length (window r))"

text \<open>
  Modelled from the spec: the derived variance, the population variance over the window:
  the squared deviations from the mean are divided by \<open>period\<close>, not by \<open>period - 1\<close>. The
  code that computes it is missing from the sources.
\<close>

definition variance :: "RollingBandIndicator \<Rightarrow> real" where
  "variance r = sum_list (map (\<lambda>x. (x - mean r)\<^sup>2) (window r)) / of_int (period r)"

text \<open>
  Modelled from the spec: the accessors \<^verbatim>\<open>middle()\<close>, \<^verbatim>\<open>upper()\<close> and \<^verbatim>\<open>lower()\<close>,
  missing from the sources. Each fails with \<^verbatim>\<open>NotReady\<close> if the indicator is not ready and
  otherwise returns the mean, the mean plus, or the mean minus the multiplier times the
  square root of the variance. The indicator is an object with state, so an accessor
  returns its result together with the indicator as the call leaves it; \<^verbatim>\<open>observe\<close> is
  the indicator's only mutator.
\<close>

definition middle ::
  "RollingBandIndicator \<Rightarrow> (indicator_error + real) \<times> RollingBandIndicator" where
  "middle r = (if is_ready r then Inr (mean r) else Inl NotReady, r)"

definition upper ::
  "RollingBandIndicator \<Rightarrow> (indicator_error + real) \<times> RollingBandIndicator" where
  "upper r =
     (if is_ready r then Inr (mean r + multiplier r * sqrt (variance r)) else Inl NotReady, r)"

definition lower ::
  "RollingBandIndicator \<Rightarrow> (indicator_error + real) \<times> RollingBandIndicator" where
  "lower r =
     (if is_ready r then Inr (mean r - multiplier r * sqrt (variance r)) else Inl NotReady, r)"

subsection \<open>Feeding observations and reading repeatedly\<close>

text \<open>The indicator after a sequence of \<^verbatim>\<open>observe\<close> calls, first observation first.\<close>

definition feed :: "real list \<Rightarrow> RollingBandIndicator \<Rightarrow> RollingBandIndicator" where
  "feed obs r = fold observe obs r"

text \<open>
  A sequence of accessor calls with no \<^verbatim>\<open>observe\<close> between them: \<open>reads as r\<close> is the
  indicator the calls leave behind.
\<close>

datatype accessor = Middle | Upper | Lower

fun read ::
  "accessor \<Rightarrow> RollingBandIndicator \<Rightarrow> (indicator_error + real) \<times> RollingBandIndicator" where
  "read Middle r = middle r"
| "read Upper r = upper r"
| "read Lower r = lower r"

definition reads :: "accessor list \<Rightarrow> RollingBandIndicator \<Rightarrow> RollingBandIndicator" where
  "reads as r = fold (\<lambda>a s. snd (read a s)) as r"

text \<open>The indicator with period 3 and multiplier 2 before its first observation.\<close>

definition sample_indicator :: RollingBandIndicator where
  "sample_indicator = \<lparr> period = 3, multiplier = 2, window = [], ready = False \<rparr>"

section \<open>Properties of \<^verbatim>\<open>TradeLogic\<close>\<close>

lemma issued_unfold:
  "issued h self =
     (if IsWarmingUp h then []
      else if \<not> Invested h (symbol self) \<and> Price h (symbol self) < LowerBand (bb h) then
        [SetHoldings (symbol self) 1,
         Debug (Long_Entry (Price h (symbol self)) (LowerBand (bb h)))]
      else if Invested h (symbol self) \<and> Price h (symbol self) > MiddleBand (bb h) then
        [Liquidate (symbol self),
         Debug (Exit_Msg (Price h (symbol self)) (MiddleBand (bb h)))]
      else [])"
  by (simp add: issued_def TradeLogic_def Let_def)

lemma decision_unfold:
  "decision h self =
     (if IsWarmingUp h then HOLD
      else if \<not> Invested h (symbol self) \<and> Price h (symbol self) < LowerBand (bb h) then ENTER
      else if Invested h (symbol self) \<and> Price h (symbol self) > MiddleBand (bb h) then EXIT
      else HOLD)"
  by (simp add: decision_def issued_unfold)

lemma TradeLogic_symbol: "symbol (TradeLogic h self) = symbol self"
  by (simp add: TradeLogic_def Let_def)

lemma TradeLogic_appends: "TradeLogic h self = self\<lparr>calls := calls self @ issued h self\<rparr>"
  by (simp add: issued_def TradeLogic_def Let_def)

lemma fold_TradeLogic_symbol: "symbol (fold TradeLogic hs self) = symbol self"
  by (induction hs arbitrary: self) (simp_all add: TradeLogic_symbol)

lemma sample_symbol: "symbol sample_algo = ''EURUSD''"
  by (simp add: sample_algo_def)

lemma sample_tick_simps:
  "IsWarmingUp (sample_tick w p i) = w"
  "Price (sample_tick w p i) s = p"
  "Invested (sample_tick w p i) s = i"
  "MiddleBand (bb (sample_tick w p i)) = 11"
  "LowerBand (bb (sample_tick w p i)) = 817 / 100"
  by (simp_all add: sample_tick_def)

text \<open>
  C1. Past the warm-up guard, the decision of a tick is the specification's evaluator
  applied to the price, the band and the invested flag the script reads: ENTER when not
  invested and the price is strictly below the lower band, otherwise EXIT when invested
  and the price is strictly above the middle band, otherwise HOLD. In particular not
  invested with the price at or above the lower band is HOLD, and invested with the price
  at or below the middle band is HOLD.
\<close>

theorem signal_priority:
  assumes "\<not> IsWarmingUp h"
  shows "decision h self = spec_evaluate (Price h (symbol self)) (bb h) (Invested h (symbol self))
       \<and> decision h self =
           (if \<not> Invested h (symbol self) \<and> Price h (symbol self) < LowerBand (bb h) then ENTER
            else if Invested h (symbol self) \<and> Price h (symbol self) > MiddleBand (bb h) then EXIT
            else HOLD)
       \<and> (\<not> Invested h (symbol self) \<and> LowerBand (bb h) \<le> Price h (symbol self)
             \<longrightarrow> decision h self = HOLD)
       \<and> (Invested h (symbol self) \<and> Price h (symbol self) \<le> MiddleBand (bb h)
             \<longrightarrow> decision h self = HOLD)"
  using assms by (simp add: decision_unfold spec_evaluate_def)

theorem signal_priority_witness:
  "decision (sample_tick False 7 False) sample_algo = ENTER
   \<and> decision (sample_tick False 13 False) sample_algo = HOLD
   \<and> decision (sample_tick False (817 / 100) False) sample_algo = HOLD
   \<and> decision (sample_tick False 12 True) sample_algo = EXIT
   \<and> decision (sample_tick False 11 True) sample_algo = HOLD
   \<and> decision (sample_tick False 7 True) sample_algo = HOLD"
  using signal_priority [of "sample_tick False 7 False" sample_algo]
        signal_priority [of "sample_tick False 13 False" sample_algo]
        signal_priority [of "sample_tick False (817 / 100) False" sample_algo]
        signal_priority [of "sample_tick False 12 True" sample_algo]
        signal_priority [of "sample_tick False 11 True" sample_algo]
        signal_priority [of "sample_tick False 7 True" sample_algo]
  by (simp add: sample_tick_simps spec_evaluate_def)

text \<open>
  C8. The evaluation is stateless. Two ticks past the warm-up guard that read the same
  price, the same lower and middle band values and the same invested flag take the same
  decision, whatever else differs: the object and its log of earlier calls, the pair, the
  upper band. And a decision does not depend on the ticks evaluated before it: after any
  sequence of earlier runs of \<^verbatim>\<open>TradeLogic\<close> the decision on a tick is what it would
  have been without them.
\<close>

theorem decision_stateless:
  assumes "\<not> IsWarmingUp h" and "\<not> IsWarmingUp h'"
    and "Price h (symbol self) = Price h' (symbol self')"
    and "LowerBand (bb h) = LowerBand (bb h')"
    and "MiddleBand (bb h) = MiddleBand (bb h')"
    and "Invested h (symbol self) = Invested h' (symbol self')"
  shows "decision h self = decision h' self'
       \<and> decision h (fold TradeLogic hs self) = decision h self"
  using assms by (simp add: decision_unfold fold_TradeLogic_symbol)

theorem decision_stateless_witness:
  "decision (sample_tick False 7 False) sample_algo
     = decision (sample_tick False 7 False)
         (sample_algo\<lparr>symbol := ''GBPUSD'', calls := [Liquidate ''GBPUSD'']\<rparr>)
   \<and> decision (sample_tick False 7 False)
         (fold TradeLogic [sample_tick False 7 False, sample_tick False 12 True] sample_algo)
       = ENTER"
proof -
  have "decision (sample_tick False 7 False) sample_algo = ENTER"
    by (simp add: decision_unfold sample_tick_simps)
  with decision_stateless [of "sample_tick False 7 False" "sample_tick False 7 False"
        sample_algo "sample_algo\<lparr>symbol := ''GBPUSD'', calls := [Liquidate ''GBPUSD'']\<rparr>"
        "[sample_tick False 7 False, sample_tick False 12 True]"]
  show ?thesis by (simp add: sample_tick_simps)
qed

text \<open>
  C9. A run of \<^verbatim>\<open>TradeLogic\<close> only appends to the log of calls, and what it appends
  holds at most one order. It holds an entry exactly when the run is past the warm-up,
  the pair is not invested and the price is strictly below the lower band, and the entry
  is \<^verbatim>\<open>SetHoldings\<close> of the object's symbol with target 1; it holds a liquidation
  exactly when the run is past the warm-up, the pair is invested and the price is strictly
  above the middle band, and it liquidates the object's symbol. Never both. On every
  other tick, and on every tick during the warm-up, the object is returned as it was.
\<close>

theorem one_order_per_tick:
  "TradeLogic h self = self\<lparr>calls := calls self @ issued h self\<rparr>
   \<and> length (filter is_order (issued h self)) \<le> 1
   \<and> (list_ex is_entry (issued h self) \<longleftrightarrow>
        \<not> IsWarmingUp h \<and> \<not> Invested h (symbol self)
        \<and> Price h (symbol self) < LowerBand (bb h))
   \<and> (\<forall>c \<in> set (issued h self). is_entry c \<longrightarrow> c = SetHoldings (symbol self) 1)
   \<and> (list_ex is_exit (issued h self) \<longleftrightarrow>
        \<not> IsWarmingUp h \<and> Invested h (symbol self)
        \<and> Price h (symbol self) > MiddleBand (bb h))
   \<and> (\<forall>c \<in> set (issued h self). is_exit c \<longrightarrow> c = Liquidate (symbol self))
   \<and> \<not> (list_ex is_entry (issued h self) \<and> list_ex is_exit (issued h self))
   \<and> (\<not> list_ex is_order (issued h self) \<longrightarrow> TradeLogic h self = self)
   \<and> (IsWarmingUp h \<longrightarrow> TradeLogic h self = self)"
  by (auto simp add: TradeLogic_appends issued_unfold is_order_def)

theorem one_order_per_tick_witness:
  "TradeLogic (sample_tick True 7 False) sample_algo = sample_algo
   \<and> TradeLogic (sample_tick False 10 True) sample_algo = sample_algo
   \<and> TradeLogic (sample_tick False 13 False) sample_algo = sample_algo
   \<and> issued (sample_tick False 7 False) sample_algo
       = [SetHoldings ''EURUSD'' 1, Debug (Long_Entry 7 (817 / 100))]
   \<and> issued (sample_tick False 12 True) sample_algo
       = [Liquidate ''EURUSD'', Debug (Exit_Msg 12 11)]"
proof -
  have a: "issued (sample_tick False 7 False) sample_algo
             = [SetHoldings ''EURUSD'' 1, Debug (Long_Entry 7 (817 / 100))]"
    and b: "issued (sample_tick False 12 True) sample_algo
             = [Liquidate ''EURUSD'', Debug (Exit_Msg 12 11)]"
    and c: "issued (sample_tick True 7 False) sample_algo = []"
    and d: "issued (sample_tick False 10 True) sample_algo = []"
    and e: "issued (sample_tick False 13 False) sample_algo = []"
    by (simp_all add: issued_unfold sample_tick_simps sample_symbol)
  from one_order_per_tick [of "sample_tick True 7 False" sample_algo]
       one_order_per_tick [of "sample_tick False 10 True" sample_algo]
       one_order_per_tick [of "sample_tick False 13 False" sample_algo]
       one_order_per_tick [of "sample_tick False 7 False" sample_algo]
       one_order_per_tick [of "sample_tick False 12 True" sample_algo]
  show ?thesis
    by (simp add: a b c d e is_order_def sample_tick_simps)
qed

section \<open>Properties of \<^verbatim>\<open>Initialize\<close>\<close>

lemmas parse_defs = int_of_str_def signed_def strip_def is_space_def
  digit_part_def is_digit_def digit_value_def

lemma int_of_str_samples:
  "int_of_str ''0'' = Some 0" "int_of_str ''-5'' = Some (- 5)" "int_of_str ''14'' = Some 14"
  "int_of_str [] = None" "int_of_str ''abc'' = None" "int_of_str ''2.5'' = None"
  by (simp_all add: parse_defs)

lemma sample_float_samples:
  "sample_float ''-1.5'' = Some (- 3 / 2)" "sample_float ''0'' = Some 0"
  "sample_float ''2.5'' = Some (5 / 2)"
  "sample_float [] = None" "sample_float ''abc'' = None"
  by (simp_all add: sample_float_def)

lemma parameters_simps:
  "parameters [] k = None"
  "parameters ((k', v) # kvs) k = (if k = k' then Some v else parameters kvs k)"
  by (auto simp add: parameters_def)

lemma initialized_simps:
  "currencyPair (initialized pair p k) = pair"
  "bb_period (initialized pair p k) = p"
  "bb_stddev (initialized pair p k) = k"
  "symbol (initialized pair p k) = pair"
  by (simp_all add: initialized_def)

text \<open>
  \<^verbatim>\<open>Initialize\<close> by cases, once the three calls before the conversions have returned.
\<close>

lemma Initialize_cases:
  assumes "\<not> raises (SetStartDate 2022 1 1)" and "\<not> raises (SetEndDate 2022 12 31)"
    and "\<not> raises (SetCash 100000)"
  shows "Initialize py_int py_float raises GetParameter =
     (case (case GetParameter ''bb_period'' of None \<Rightarrow> Some 20 | Some v \<Rightarrow> py_int v) of
        None \<Rightarrow> Inl (ValueError_int (the (GetParameter ''bb_period'')))
      | Some n \<Rightarrow>
          (case (case GetParameter ''bb_stddev'' of None \<Rightarrow> Some 2 | Some w \<Rightarrow> py_float w) of
             None \<Rightarrow> Inl (ValueError_float (the (GetParameter ''bb_stddev'')))
           | Some x \<Rightarrow>
               (case perform raises
                       [SetStartDate 2022 1 1, SetEndDate 2022 12 31, SetCash 100000]
                       [AddForex (case GetParameter ''pair'' of
                                    None \<Rightarrow> ''EURUSD''
                                  | Some p \<Rightarrow> if p = [] then ''EURUSD'' else p),
                        BB (case GetParameter ''pair'' of
                              None \<Rightarrow> ''EURUSD''
                            | Some p \<Rightarrow> if p = [] then ''EURUSD'' else p) n x,
                        SetWarmUp n,
                        Schedule_TradeLogic
                          (case GetParameter ''pair'' of
                             None \<Rightarrow> ''EURUSD''
                           | Some p \<Rightarrow> if p = [] then ''EURUSD'' else p)] of
                  Inl e \<Rightarrow> Inl e
                | Inr made \<Rightarrow>
                    Inr \<lparr> currencyPair = (case GetParameter ''pair'' of
                                             None \<Rightarrow> ''EURUSD''
                                           | Some p \<Rightarrow> if p = [] then ''EURUSD'' else p),
                          bb_period = n, bb_stddev = x,
                          symbol = (case GetParameter ''pair'' of
                                      None \<Rightarrow> ''EURUSD''
                                    | Some p \<Rightarrow> if p = [] then ''EURUSD'' else p),
                          calls = made \<rparr>)))"
  using assms by (simp add: Initialize_def Let_def split: option.split)

lemma perform_rest:
  "perform raises made [AddForex pair, BB pair n x, SetWarmUp n, Schedule_TradeLogic pair] =
     (if raises (AddForex pair) then Inl (Host_raised (AddForex pair))
      else if raises (BB pair n x) then Inl (Host_raised (BB pair n x))
      else if raises (SetWarmUp n) then Inl (Host_raised (SetWarmUp n))
      else if raises (Schedule_TradeLogic pair) then Inl (Host_raised (Schedule_TradeLogic pair))
      else Inr (made @ [AddForex pair, BB pair n x, SetWarmUp n, Schedule_TradeLogic pair]))"
  by simp

lemma Initialize_resolved:
  assumes "(GetParameter ''bb_period'' = None \<and> n = 20)
           \<or> (GetParameter ''bb_period'' = Some v \<and> py_int v = Some n)"
    and "(GetParameter ''bb_stddev'' = None \<and> x = 2)
         \<or> (GetParameter ''bb_stddev'' = Some w \<and> py_float w = Some x)"
    and "pair = (case GetParameter ''pair'' of
                   None \<Rightarrow> ''EURUSD''
                 | Some p \<Rightarrow> if p = [] then ''EURUSD'' else p)"
    and "\<not> raises (SetStartDate 2022 1 1)" and "\<not> raises (SetEndDate 2022 12 31)"
    and "\<not> raises (SetCash 100000)" and "\<not> raises (AddForex pair)"
  shows "Initialize py_int py_float raises GetParameter =
           (if raises (BB pair n x) then Inl (Host_raised (BB pair n x))
            else if raises (SetWarmUp n) then Inl (Host_raised (SetWarmUp n))
            else if raises (Schedule_TradeLogic pair)
              then Inl (Host_raised (Schedule_TradeLogic pair))
            else Inr (initialized pair n x))"
proof -
  have p: "(case GetParameter ''bb_period'' of None \<Rightarrow> Some 20 | Some v \<Rightarrow> py_int v) = Some n"
    using assms(1) by auto
  have m: "(case GetParameter ''bb_stddev'' of None \<Rightarrow> Some 2 | Some w \<Rightarrow> py_float w) = Some x"
    using assms(2) by auto
  show ?thesis
    unfolding Initialize_cases [OF assms(4-6)] p m assms(3) [symmetric]
    using assms(7) by (simp add: perform_rest initialized_def)
qed

lemma Initialize_int_error:
  assumes "GetParameter ''bb_period'' = Some v" and "py_int v = None"
    and "\<not> raises (SetStartDate 2022 1 1)" and "\<not> raises (SetEndDate 2022 12 31)"
    and "\<not> raises (SetCash 100000)"
  shows "Initialize py_int py_float raises GetParameter = Inl (ValueError_int v)"
  unfolding Initialize_cases [OF assms(3-5)] using assms(1,2) by simp

lemma Initialize_float_error:
  assumes "GetParameter ''bb_period'' = None
           \<or> (\<exists>u m. GetParameter ''bb_period'' = Some u \<and> py_int u = Some m)"
    and "GetParameter ''bb_stddev'' = Some w" and "py_float w = None"
    and "\<not> raises (SetStartDate 2022 1 1)" and "\<not> raises (SetEndDate 2022 12 31)"
    and "\<not> raises (SetCash 100000)"
  shows "Initialize py_int py_float raises GetParameter = Inl (ValueError_float w)"
  unfolding Initialize_cases [OF assms(4-6)] using assms(1-3) by auto

lemma Initialize_Inr:
  assumes "Initialize py_int py_float raises GetParameter = Inr a"
    and "\<not> raises (SetStartDate 2022 1 1)" and "\<not> raises (SetEndDate 2022 12 31)"
    and "\<not> raises (SetCash 100000)"
  shows "currencyPair a = (case GetParameter ''pair'' of
                             None \<Rightarrow> ''EURUSD''
                           | Some p \<Rightarrow> if p = [] then ''EURUSD'' else p)"
    and "(case GetParameter ''bb_period'' of None \<Rightarrow> Some 20 | Some v \<Rightarrow> py_int v)
           = Some (bb_period a)"
    and "(case GetParameter ''bb_stddev'' of None \<Rightarrow> Some 2 | Some w \<Rightarrow> py_float w)
           = Some (bb_stddev a)"
proof -
  let ?P = "case GetParameter ''bb_period'' of None \<Rightarrow> Some 20 | Some v \<Rightarrow> py_int v"
  let ?M = "case GetParameter ''bb_stddev'' of None \<Rightarrow> Some 2 | Some w \<Rightarrow> py_float w"
  note c = assms(1) [unfolded Initialize_cases [OF assms(2-4)]]
  from c obtain n where n: "?P = Some n" by (cases ?P) simp_all
  from c n obtain x where x: "?M = Some x" by (cases ?M) simp_all
  from c n x show "currencyPair a = (case GetParameter ''pair'' of
                             None \<Rightarrow> ''EURUSD''
                           | Some p \<Rightarrow> if p = [] then ''EURUSD'' else p)"
    by (auto split: sum.splits)
  from c n x show "?P = Some (bb_period a)" by (auto split: sum.splits)
  from c n x show "?M = Some (bb_stddev a)" by (auto split: sum.splits)
qed

text \<open>
  C10. On a host that returns from every call, the three parameters default differently.
  The pair is \<^verbatim>\<open>EURUSD\<close> whenever the pair parameter is absent or the empty string, and
  the parameter's value otherwise. The period is 20 and the multiplier is 2 exactly when
  the parameter is absent; a parameter that is present goes to \<^verbatim>\<open>int()\<close> or
  \<^verbatim>\<open>float()\<close> as it is. Where every conversion made succeeds, \<^verbatim>\<open>Initialize\<close> runs to
  its end with the pair, the period and the multiplier so resolved, whatever their sign:
  nothing is validated. Where the conversion of a present \<^verbatim>\<open>bb_period\<close> fails, as it
  does on an empty or a non-numeric string, \<^verbatim>\<open>Initialize\<close> fails with that
  \<^verbatim>\<open>ValueError\<close> and no default is used; where the period is resolved and the conversion
  of a present \<^verbatim>\<open>bb_stddev\<close> fails, \<^verbatim>\<open>Initialize\<close> fails with that one.
\<close>

theorem parameter_defaulting:
  assumes "\<And>c. \<not> raises c"
  shows
  "(((GetParameter ''bb_period'' = None \<and> n = 20)
       \<or> (GetParameter ''bb_period'' = Some v \<and> py_int v = Some n))
      \<and> ((GetParameter ''bb_stddev'' = None \<and> x = 2)
           \<or> (GetParameter ''bb_stddev'' = Some w \<and> py_float w = Some x))
      \<longrightarrow> Initialize py_int py_float raises GetParameter =
            Inr (initialized
                   (case GetParameter ''pair'' of
                      None \<Rightarrow> ''EURUSD''
                    | Some p \<Rightarrow> if p = [] then ''EURUSD'' else p) n x))
   \<and> (GetParameter ''bb_period'' = Some v \<and> py_int v = None
        \<longrightarrow> Initialize py_int py_float raises GetParameter = Inl (ValueError_int v))
   \<and> ((GetParameter ''bb_period'' = None
         \<or> (\<exists>u m. GetParameter ''bb_period'' = Some u \<and> py_int u = Some m))
        \<and> GetParameter ''bb_stddev'' = Some w \<and> py_float w = None
        \<longrightarrow> Initialize py_int py_float raises GetParameter = Inl (ValueError_float w))
   \<and> (Initialize py_int py_float raises GetParameter = Inr a \<longrightarrow>
        currencyPair a =
          (case GetParameter ''pair'' of
             None \<Rightarrow> ''EURUSD''
           | Some p \<Rightarrow> if p = [] then ''EURUSD'' else p))
   \<and> (GetParameter ''bb_period'' = None
        \<and> Initialize py_int py_float raises GetParameter = Inr a
        \<longrightarrow> bb_period a = 20)
   \<and> (GetParameter ''bb_stddev'' = None
        \<and> Initialize py_int py_float raises GetParameter = Inr a
        \<longrightarrow> bb_stddev a = 2)
   \<and> (GetParameter ''bb_period'' = Some v
        \<and> Initialize py_int py_float raises GetParameter = Inr a
        \<longrightarrow> py_int v = Some (bb_period a))
   \<and> (GetParameter ''bb_stddev'' = Some w
        \<and> Initialize py_int py_float raises GetParameter = Inr a
        \<longrightarrow> py_float w = Some (bb_stddev a))"
proof -
  let ?I = "Initialize py_int py_float raises GetParameter"
  let ?pair = "case GetParameter ''pair'' of
                 None \<Rightarrow> ''EURUSD''
               | Some p \<Rightarrow> if p = [] then ''EURUSD'' else p"
  note q = assms [of "SetStartDate 2022 1 1"] assms [of "SetEndDate 2022 12 31"]
    assms [of "SetCash 100000"]
  have c1: "((GetParameter ''bb_period'' = None \<and> n = 20)
       \<or> (GetParameter ''bb_period'' = Some v \<and> py_int v = Some n))
      \<and> ((GetParameter ''bb_stddev'' = None \<and> x = 2)
           \<or> (GetParameter ''bb_stddev'' = Some w \<and> py_float w = Some x))
      \<longrightarrow> ?I = Inr (initialized ?pair n x)"
  proof
    assume h: "((GetParameter ''bb_period'' = None \<and> n = 20)
       \<or> (GetParameter ''bb_period'' = Some v \<and> py_int v = Some n))
      \<and> ((GetParameter ''bb_stddev'' = None \<and> x = 2)
           \<or> (GetParameter ''bb_stddev'' = Some w \<and> py_float w = Some x))"
    show "?I = Inr (initialized ?pair n x)"
      using Initialize_resolved [where GetParameter = GetParameter and py_int = py_int
              and py_float = py_float and raises = raises and n = n and x = x and v = v
              and w = w and pair = ?pair, OF conjunct1 [OF h] conjunct2 [OF h] refl q
              assms [of "AddForex ?pair"]]
      by (simp add: assms)
  qed
  have c2: "GetParameter ''bb_period'' = Some v \<and> py_int v = None
        \<longrightarrow> ?I = Inl (ValueError_int v)"
    using Initialize_int_error [OF _ _ q] by blast
  have c3: "(GetParameter ''bb_period'' = None
         \<or> (\<exists>u m. GetParameter ''bb_period'' = Some u \<and> py_int u = Some m))
        \<and> GetParameter ''bb_stddev'' = Some w \<and> py_float w = None
        \<longrightarrow> ?I = Inl (ValueError_float w)"
    using Initialize_float_error [OF _ _ _ q] by blast
  have c4: "?I = Inr a \<longrightarrow> currencyPair a = ?pair"
    using Initialize_Inr(1) [OF _ q] by blast
  have c5: "GetParameter ''bb_period'' = None \<and> ?I = Inr a \<longrightarrow> bb_period a = 20"
    using Initialize_Inr(2) [OF _ q, of py_int py_float GetParameter a] by auto
  have c6: "GetParameter ''bb_stddev'' = None \<and> ?I = Inr a \<longrightarrow> bb_stddev a = 2"
    using Initialize_Inr(3) [OF _ q, of py_int py_float GetParameter a] by auto
  have c7: "GetParameter ''bb_period'' = Some v \<and> ?I = Inr a
        \<longrightarrow> py_int v = Some (bb_period a)"
    using Initialize_Inr(2) [OF _ q, of py_int py_float GetParameter a] by auto
  have c8: "GetParameter ''bb_stddev'' = Some w \<and> ?I = Inr a
        \<longrightarrow> py_float w = Some (bb_stddev a)"
    using Initialize_Inr(3) [OF _ q, of py_int py_float GetParameter a] by auto
  from c1 c2 c3 c4 c5 c6 c7 c8 show ?thesis by blast
qed

theorem parameter_defaulting_witness:
  "outcome (Initialize int_of_str sample_float never_raises (parameters []))
     = Inr (''EURUSD'', 20, 2)
   \<and> outcome (Initialize int_of_str sample_float never_raises (parameters [(''pair'', [])]))
       = Inr (''EURUSD'', 20, 2)
   \<and> outcome (Initialize int_of_str sample_float never_raises
         (parameters [(''pair'', ''GBPUSD'')]))
       = Inr (''GBPUSD'', 20, 2)
   \<and> outcome (Initialize int_of_str sample_float never_raises
         (parameters [(''pair'', ''GBPUSD''), (''bb_stddev'', ''2.5'')]))
       = Inr (''GBPUSD'', 20, 5 / 2)
   \<and> outcome (Initialize int_of_str sample_float never_raises
         (parameters [(''bb_period'', ''0'')]))
       = Inr (''EURUSD'', 0, 2)
   \<and> outcome (Initialize int_of_str sample_float never_raises
         (parameters [(''bb_period'', ''0''), (''bb_stddev'', ''2.5'')]))
       = Inr (''EURUSD'', 0, 5 / 2)
   \<and> Initialize int_of_str sample_float never_raises
         (parameters [(''pair'', []), (''bb_period'', [])])
       = Inl (ValueError_int [])
   \<and> Initialize int_of_str sample_float never_raises (parameters [(''bb_period'', ''abc'')])
       = Inl (ValueError_int ''abc'')
   \<and> Initialize int_of_str sample_float never_raises (parameters [(''bb_stddev'', [])])
       = Inl (ValueError_float [])
   \<and> Initialize int_of_str sample_float never_raises
         (parameters [(''bb_period'', ''14''), (''bb_stddev'', ''abc'')])
       = Inl (ValueError_float ''abc'')"
proof -
  let ?I = "Initialize int_of_str sample_float never_raises"
  have q: "\<not> never_raises c" for c
    by (simp add: never_raises_def)
  note inst = parameter_defaulting [where raises = never_raises and py_int = int_of_str
      and py_float = sample_float, OF q]
  note ev = parameters_simps int_of_str_samples sample_float_samples
    outcome_def settings_def initialized_simps
  have 1: "outcome (?I (parameters [])) = Inr (''EURUSD'', 20, 2)"
    using inst [where GetParameter = "parameters []" and a = "initialized ''EURUSD'' 20 2"
        and v = "[]" and w = "[]" and n = 20 and x = 2]
    by (simp add: ev)
  have 2: "outcome (?I (parameters [(''pair'', [])])) = Inr (''EURUSD'', 20, 2)"
    using inst [where GetParameter = "parameters [(''pair'', [])]"
        and a = "initialized ''EURUSD'' 20 2"
        and v = "[]" and w = "[]" and n = 20 and x = 2]
    by (simp add: ev)
  have 3: "outcome (?I (parameters [(''pair'', ''GBPUSD'')])) = Inr (''GBPUSD'', 20, 2)"
    using inst [where GetParameter = "parameters [(''pair'', ''GBPUSD'')]"
        and a = "initialized ''GBPUSD'' 20 2"
        and v = "[]" and w = "[]" and n = 20 and x = 2]
    by (simp add: ev)
  have 4: "outcome (?I (parameters [(''pair'', ''GBPUSD''), (''bb_stddev'', ''2.5'')]))
             = Inr (''GBPUSD'', 20, 5 / 2)"
    using inst [where GetParameter
          = "parameters [(''pair'', ''GBPUSD''), (''bb_stddev'', ''2.5'')]"
        and a = "initialized ''GBPUSD'' 20 (5 / 2)"
        and v = "[]" and w = "''2.5''" and n = 20 and x = "5 / 2"]
    by (simp add: ev)
  have 5: "outcome (?I (parameters [(''bb_period'', ''0'')])) = Inr (''EURUSD'', 0, 2)"
    using inst [where GetParameter = "parameters [(''bb_period'', ''0'')]"
        and a = "initialized ''EURUSD'' 0 2"
        and v = "''0''" and w = "[]" and n = 0 and x = 2]
    by (simp add: ev)
  have 6: "outcome (?I (parameters [(''bb_period'', ''0''), (''bb_stddev'', ''2.5'')]))
             = Inr (''EURUSD'', 0, 5 / 2)"
    using inst [where GetParameter
          = "parameters [(''bb_period'', ''0''), (''bb_stddev'', ''2.5'')]"
        and a = "initialized ''EURUSD'' 0 (5 / 2)"
        and v = "''0''" and w = "''2.5''" and n = 0 and x = "5 / 2"]
    by (simp add: ev)
  have 7: "?I (parameters [(''pair'', []), (''bb_period'', [])]) = Inl (ValueError_int [])"
    using inst [where GetParameter = "parameters [(''pair'', []), (''bb_period'', [])]"
        and a = "initialized ''EURUSD'' 20 2"
        and v = "[]" and w = "[]" and n = 0 and x = 0]
    by (simp add: ev)
  have 8: "?I (parameters [(''bb_period'', ''abc'')]) = Inl (ValueError_int ''abc'')"
    using inst [where GetParameter = "parameters [(''bb_period'', ''abc'')]"
        and a = "initialized ''EURUSD'' 20 2"
        and v = "''abc''" and w = "[]" and n = 0 and x = 0]
    by (simp add: ev)
  have 9: "?I (parameters [(''bb_stddev'', [])]) = Inl (ValueError_float [])"
    using inst [where GetParameter = "parameters [(''bb_stddev'', [])]"
        and a = "initialized ''EURUSD'' 20 2"
        and v = "[]" and w = "[]" and n = 0 and x = 0]
    by (simp add: ev)
  have 10: "?I (parameters [(''bb_period'', ''14''), (''bb_stddev'', ''abc'')])
              = Inl (ValueError_float ''abc'')"
    using inst [where GetParameter
          = "parameters [(''bb_period'', ''14''), (''bb_stddev'', ''abc'')]"
        and a = "initialized ''EURUSD'' 20 2"
        and v = "''14''" and w = "''abc''" and n = 0 and x = 0]
    by (simp add: ev)
  from 1 2 3 4 5 6 7 8 9 10 show ?thesis by blast
qed

text \<open>
  C3 (as the script has it). \<^verbatim>\<open>Initialize\<close> validates neither value and has no
  \<^verbatim>\<open>InvalidParameter\<close> of its own. Whatever integer the period resolves to (20 when
  \<^verbatim>\<open>bb_period\<close> is absent, \<^verbatim>\<open>int(bb_period)\<close> otherwise) and whatever number the
  multiplier resolves to (2 when \<^verbatim>\<open>bb_stddev\<close> is absent, \<^verbatim>\<open>float(bb_stddev)\<close>
  otherwise), positive or not, the script hands both unchanged to the host's \<^verbatim>\<open>BB\<close>
  constructor, once the calls before it have returned. The construction fails exactly
  when the host raises on that call, and then \<^verbatim>\<open>Initialize\<close> fails with the host's
  error before \<^verbatim>\<open>SetWarmUp\<close>; when the host returns, \<^verbatim>\<open>Initialize\<close> goes on to
  \<^verbatim>\<open>SetWarmUp\<close> with the same period and to the schedule. Whether a non-positive value
  is rejected is therefore the host constructor's decision alone.
\<close>

theorem initialize_forwards_any_sign:
  assumes "(GetParameter ''bb_period'' = None \<and> n = 20)
           \<or> (GetParameter ''bb_period'' = Some v \<and> py_int v = Some n)"
    and "(GetParameter ''bb_stddev'' = None \<and> x = 2)
         \<or> (GetParameter ''bb_stddev'' = Some w \<and> py_float w = Some x)"
    and "pair = (case GetParameter ''pair'' of
                   None \<Rightarrow> ''EURUSD''
                 | Some p \<Rightarrow> if p = [] then ''EURUSD'' else p)"
    and "\<not> raises (SetStartDate 2022 1 1)" and "\<not> raises (SetEndDate 2022 12 31)"
    and "\<not> raises (SetCash 100000)" and "\<not> raises (AddForex pair)"
  shows "Initialize py_int py_float raises GetParameter =
           (if raises (BB pair n x) then Inl (Host_raised (BB pair n x))
            else if raises (SetWarmUp n) then Inl (Host_raised (SetWarmUp n))
            else if raises (Schedule_TradeLogic pair)
              then Inl (Host_raised (Schedule_TradeLogic pair))
            else Inr (initialized pair n x))"
  using assms by (rule Initialize_resolved)

theorem initialize_forwards_any_sign_witness:
  "Initialize int_of_str sample_float never_raises
     (parameters [(''bb_period'', ''14''), (''bb_stddev'', ''0'')])
     = Inr (initialized ''EURUSD'' 14 0)
   \<and> Initialize int_of_str sample_float raises_below_one
     (parameters [(''bb_period'', ''14''), (''bb_stddev'', ''0'')])
     = Inr (initialized ''EURUSD'' 14 0)
   \<and> Initialize int_of_str sample_float raises_below_one
     (parameters [(''pair'', ''GBPUSD''), (''bb_period'', ''0'')])
     = Inl (Host_raised (BB ''GBPUSD'' 0 2))"
proof -
  let ?a = "parameters [(''bb_period'', ''14''), (''bb_stddev'', ''0'')]"
  let ?b = "parameters [(''pair'', ''GBPUSD''), (''bb_period'', ''0'')]"
  have pa: "(?a ''bb_period'' = None \<and> (14::int) = 20)
            \<or> (?a ''bb_period'' = Some ''14'' \<and> int_of_str ''14'' = Some 14)"
    and ma: "(?a ''bb_stddev'' = None \<and> (0::real) = 2)
            \<or> (?a ''bb_stddev'' = Some ''0'' \<and> sample_float ''0'' = Some 0)"
    and na: "''EURUSD'' = (case ?a ''pair'' of
                   None \<Rightarrow> ''EURUSD''
                 | Some p \<Rightarrow> if p = [] then ''EURUSD'' else p)"
    by (simp_all add: parameters_simps int_of_str_samples sample_float_samples)
  have pb: "(?b ''bb_period'' = None \<and> (0::int) = 20)
            \<or> (?b ''bb_period'' = Some ''0'' \<and> int_of_str ''0'' = Some 0)"
    and mb: "(?b ''bb_stddev'' = None \<and> (2::real) = 2)
            \<or> (?b ''bb_stddev'' = Some [] \<and> sample_float [] = Some 2)"
    and nb: "''GBPUSD'' = (case ?b ''pair'' of
                   None \<Rightarrow> ''EURUSD''
                 | Some p \<Rightarrow> if p = [] then ''EURUSD'' else p)"
    by (simp_all add: parameters_simps int_of_str_samples sample_float_samples)
  have 1: "Initialize int_of_str sample_float never_raises ?a
             = Inr (initialized ''EURUSD'' 14 0)"
    using initialize_forwards_any_sign [where GetParameter = ?a and py_int = int_of_str
        and py_float = sample_float and raises = never_raises and n = 14 and x = 0
        and v = "''14''" and w = "''0''" and pair = "''EURUSD''", OF pa ma na]
    by (simp add: never_raises_def)
  have 2: "Initialize int_of_str sample_float raises_below_one ?a
             = Inr (initialized ''EURUSD'' 14 0)"
    using initialize_forwards_any_sign [where GetParameter = ?a and py_int = int_of_str
        and py_float = sample_float and raises = raises_below_one and n = 14 and x = 0
        and v = "''14''" and w = "''0''" and pair = "''EURUSD''", OF pa ma na]
    by simp
  have 3: "Initialize int_of_str sample_float raises_below_one ?b
             = Inl (Host_raised (BB ''GBPUSD'' 0 2))"
    using initialize_forwards_any_sign [where GetParameter = ?b and py_int = int_of_str
        and py_float = sample_float and raises = raises_below_one and n = 0 and x = 2
        and v = "''0''" and w = "[]" and pair = "''GBPUSD''", OF pb mb nb]
    by simp
  from 1 2 3 show ?thesis by blast
qed

text \<open>
  C3 as stated does not hold of the script. With \<^verbatim>\<open>bb_stddev = "-1.5"\<close> and no
  \<^verbatim>\<open>bb_period\<close>, the period is the default 20 and the multiplier is -1.5, which is not
  positive. The script raises nothing: on a host that returns from its calls,
  \<^verbatim>\<open>Initialize\<close> runs to its end, having created the indicator with multiplier -1.5.
  (The specification's indicator, \<open>construct\<close>, rejects such a multiplier; the script has no check of its own, and the host's constructor is not among
  its sources.)
\<close>

theorem nonpositive_multiplier_counterexample:
  "Initialize int_of_str sample_float never_raises (parameters [(''bb_stddev'', ''-1.5'')])
   = Inr \<lparr> currencyPair = ''EURUSD'', bb_period = 20, bb_stddev = - 3 / 2,
           symbol = ''EURUSD'',
           calls = [SetStartDate 2022 1 1, SetEndDate 2022 12 31, SetCash 100000,
                    AddForex ''EURUSD'', BB ''EURUSD'' 20 (- 3 / 2), SetWarmUp 20,
                    Schedule_TradeLogic ''EURUSD''] \<rparr>"
  by (simp add: Initialize_def Let_def parameters_simps sample_float_samples
        never_raises_def)

section \<open>Properties of the rolling band indicator\<close>

lemma construct_Inr:
  "construct p k = Inr r \<longleftrightarrow>
     0 < p \<and> 0 < k \<and> r = \<lparr> period = p, multiplier = k, window = [], ready = False \<rparr>"
  by (auto simp add: construct_def)

lemma feed_snoc: "feed (xs @ [x]) r = observe x (feed xs r)"
  by (simp add: feed_def)

lemma feed_Nil: "feed [] r = r"
  by (simp add: feed_def)

lemma observe_period: "period (observe x r) = period r"
  and observe_multiplier: "multiplier (observe x r) = multiplier r"
  by (simp_all add: observe_def Let_def)

lemma feed_period: "period (feed obs r) = period r"
  by (induction obs rule: rev_induct) (simp_all add: feed_Nil feed_snoc observe_period)

lemma feed_multiplier: "multiplier (feed obs r) = multiplier r"
  by (induction obs rule: rev_induct) (simp_all add: feed_Nil feed_snoc observe_multiplier)

lemma window_feed:
  assumes "0 < period r" and "window r = []"
  shows "window (feed obs r) = drop (length obs - nat (period r)) obs"
proof (induction obs rule: rev_induct)
  case Nil
  show ?case using assms by (simp add: feed_Nil)
next
  case (snoc x xs)
  let ?n = "nat (period r)"
  have n: "0 < ?n" using assms by simp
  show ?case
  proof (cases "?n \<le> length xs")
    case True
    then have len: "int (length (window (feed xs r))) = period r"
      using snoc assms by simp
    have "tl (drop (length xs - ?n) xs) = drop (Suc (length xs) - ?n) xs"
      using True by (simp add: drop_Suc tl_drop Suc_diff_le)
    then show ?thesis
      using len snoc True n
      by (simp add: feed_snoc observe_def Let_def feed_period)
  next
    case False
    then have "int (length (window (feed xs r))) \<noteq> period r"
      using snoc assms by simp
    then show ?thesis
      using snoc False
      by (simp add: feed_snoc observe_def Let_def feed_period)
  qed
qed

lemma ready_feed:
  assumes "0 < period r" and "window r = []" and "\<not> ready r"
  shows "ready (feed obs r) \<longleftrightarrow> nat (period r) \<le> length obs"
proof (induction obs rule: rev_induct)
  case Nil
  show ?case using assms by (simp add: feed_Nil)
next
  case (snoc x xs)
  have "window (observe x (feed xs r)) = drop (Suc (length xs) - nat (period r)) (xs @ [x])"
    using window_feed [OF assms(1,2), of "xs @ [x]"] by (simp add: feed_snoc)
  moreover have "ready (observe x (feed xs r)) \<longleftrightarrow>
      ready (feed xs r) \<or> int (length (window (observe x (feed xs r)))) = period r"
    unfolding feed_period [of xs r, symmetric] by (simp add: observe_def Let_def)
  ultimately show ?case
    using snoc assms(1) by (auto simp add: feed_snoc feed_period)
qed

lemma variance_nonneg: "0 < period r \<Longrightarrow> 0 \<le> variance r"
proof -
  assume "0 < period r"
  moreover have "0 \<le> sum_list (map (\<lambda>x. (x - mean r)\<^sup>2) (window r))"
    by (rule sum_list_nonneg) auto
  ultimately show ?thesis by (simp add: variance_def)
qed

lemma construct_pos: "construct p k = Inr r0 \<Longrightarrow> 0 < p \<and> 0 < k"
  by (simp add: construct_Inr)

lemma construct_feed_period: "construct p k = Inr r0 \<Longrightarrow> period (feed obs r0) = p"
  by (auto simp add: construct_Inr feed_period)

lemma construct_feed_multiplier: "construct p k = Inr r0 \<Longrightarrow> multiplier (feed obs r0) = k"
  by (auto simp add: construct_Inr feed_multiplier)

lemma construct_feed_window:
  "construct p k = Inr r0 \<Longrightarrow> window (feed obs r0) = drop (length obs - nat p) obs"
  using window_feed [of r0 obs] by (auto simp add: construct_Inr)

lemma construct_feed_ready:
  "construct p k = Inr r0 \<Longrightarrow> ready (feed obs r0) \<longleftrightarrow> nat p \<le> length obs"
  using ready_feed [of r0 obs] by (auto simp add: construct_Inr)

lemma construct_sample: "construct 3 2 = Inr sample_indicator"
  by (simp add: construct_def sample_indicator_def)

lemma feed_simps:
  "feed [] r = r"
  "feed (x # xs) r = feed xs (observe x r)"
  by (simp_all add: feed_def)

lemma sample_feeds:
  "feed [10, 10] sample_indicator
     = \<lparr> period = 3, multiplier = 2, window = [10, 10], ready = False \<rparr>"
  "feed [10, 10, 10] sample_indicator
     = \<lparr> period = 3, multiplier = 2, window = [10, 10, 10], ready = True \<rparr>"
  "feed [10, 10, 10, 13] sample_indicator
     = \<lparr> period = 3, multiplier = 2, window = [10, 10, 13], ready = True \<rparr>"
  by (simp_all add: feed_simps observe_def sample_indicator_def)

lemma sqrt2_bounds: "1414 / 1000 < sqrt 2" "sqrt 2 < 1415 / 1000"
proof -
  show "1414 / 1000 < sqrt 2"
    by (rule real_less_rsqrt) (simp add: power2_eq_square)
  show "sqrt 2 < 1415 / 1000"
    by (rule real_less_lsqrt) (simp_all add: power2_eq_square)
qed

lemma sample_band:
  "is_ready (feed [10, 10, 10, 13] sample_indicator)"
  "mean (feed [10, 10, 10, 13] sample_indicator) = 11"
  "variance (feed [10, 10, 10, 13] sample_indicator) = 2"
  "fst (middle (feed [10, 10, 10, 13] sample_indicator)) = Inr 11"
  "fst (upper (feed [10, 10, 10, 13] sample_indicator)) = Inr (11 + 2 * sqrt 2)"
  "fst (lower (feed [10, 10, 10, 13] sample_indicator)) = Inr (11 - 2 * sqrt 2)"
proof -
  let ?S = "feed [10, 10, 10, 13] sample_indicator"
  show r: "is_ready ?S" by (simp add: is_ready_def sample_feeds)
  show m: "mean ?S = 11" by (simp add: sample_feeds mean_def)
  show v: "variance ?S = 2" by (simp add: variance_def m) (simp add: sample_feeds)
  show "fst (middle ?S) = Inr 11"
    "fst (upper ?S) = Inr (11 + 2 * sqrt 2)"
    "fst (lower ?S) = Inr (11 - 2 * sqrt 2)"
    by (simp_all add: middle_def upper_def lower_def r m v) (simp_all add: sample_feeds)
qed

lemma sample_constant_band:
  "is_ready (feed [10, 10, 10] sample_indicator)"
  "fst (middle (feed [10, 10, 10] sample_indicator)) = Inr 10"
  "fst (upper (feed [10, 10, 10] sample_indicator)) = Inr 10"
  "fst (lower (feed [10, 10, 10] sample_indicator)) = Inr 10"
proof -
  let ?S = "feed [10, 10, 10] sample_indicator"
  show r: "is_ready ?S" by (simp add: is_ready_def sample_feeds)
  have m: "mean ?S = 10" by (simp add: sample_feeds mean_def)
  have v: "variance ?S = 0" by (simp add: variance_def m) (simp add: sample_feeds)
  show "fst (middle ?S) = Inr 10" "fst (upper ?S) = Inr 10" "fst (lower ?S) = Inr 10"
    by (simp_all add: middle_def upper_def lower_def r m v)
qed

text \<open>
  C2. For an indicator that was constructed (so its period is at least 1): after fewer
  than \<open>period\<close> observations \<^verbatim>\<open>is_ready()\<close> is false and \<^verbatim>\<open>middle()\<close>, \<^verbatim>\<open>upper()\<close>
  and \<^verbatim>\<open>lower()\<close> each fail with \<^verbatim>\<open>NotReady\<close>, returning no number; after at least
  \<open>period\<close> observations \<^verbatim>\<open>is_ready()\<close> is true and the three accessors return a value.
\<close>

theorem not_ready_before_period:
  assumes "construct p k = Inr r0"
  shows "(int (length obs) < p \<longrightarrow>
            \<not> is_ready (feed obs r0)
            \<and> fst (middle (feed obs r0)) = Inl NotReady
            \<and> fst (upper (feed obs r0)) = Inl NotReady
            \<and> fst (lower (feed obs r0)) = Inl NotReady)
       \<and> (p \<le> int (length obs) \<longrightarrow>
            is_ready (feed obs r0)
            \<and> (\<exists>m u l. fst (middle (feed obs r0)) = Inr m
                  \<and> fst (upper (feed obs r0)) = Inr u
                  \<and> fst (lower (feed obs r0)) = Inr l))"
  using construct_pos [OF assms] construct_feed_ready [OF assms, of obs]
  by (auto simp add: is_ready_def middle_def upper_def lower_def)

theorem not_ready_before_period_witness:
  "construct 3 2 = Inr sample_indicator
   \<and> \<not> is_ready (feed [10, 10] sample_indicator)
   \<and> fst (middle (feed [10, 10] sample_indicator)) = Inl NotReady
   \<and> fst (upper (feed [10, 10] sample_indicator)) = Inl NotReady
   \<and> fst (lower (feed [10, 10] sample_indicator)) = Inl NotReady
   \<and> is_ready (feed [10, 10, 10] sample_indicator)
   \<and> fst (middle (feed [10, 10, 10] sample_indicator)) = Inr 10
   \<and> fst (upper (feed [10, 10, 10] sample_indicator)) = Inr 10
   \<and> fst (lower (feed [10, 10, 10] sample_indicator)) = Inr 10"
  using not_ready_before_period [OF construct_sample, of "[10, 10]"]
        not_ready_before_period [OF construct_sample, of "[10, 10, 10]"]
  by (simp add: construct_sample sample_constant_band)

text \<open>
  C4. For an indicator constructed with valid parameters and any sequence of
  observations fed to it, the window never holds more than \<open>period\<close> elements, and
  whenever the indicator is ready its three band values exist and satisfy
  \<open>lower \<le> middle \<le> upper\<close>, with equality on either side exactly when the variance of
  the window is zero.
\<close>

theorem band_order_invariant:
  assumes "construct p k = Inr r0"
  shows "int (length (window (feed obs r0))) \<le> p
       \<and> (is_ready (feed obs r0) \<longrightarrow>
            (\<exists>m u l. fst (middle (feed obs r0)) = Inr m
                  \<and> fst (upper (feed obs r0)) = Inr u
                  \<and> fst (lower (feed obs r0)) = Inr l
                  \<and> l \<le> m \<and> m \<le> u
                  \<and> (u = m \<longleftrightarrow> variance (feed obs r0) = 0)
                  \<and> (m = l \<longleftrightarrow> variance (feed obs r0) = 0)))"
proof -
  let ?R = "feed obs r0"
  note pos = construct_pos [OF assms]
  have "length (window ?R) \<le> nat p"
    by (simp add: construct_feed_window [OF assms])
  then have len: "int (length (window ?R)) \<le> p"
    using pos by linarith
  have v: "0 \<le> variance ?R"
    using pos by (simp add: variance_nonneg construct_feed_period [OF assms])
  then have s: "0 \<le> multiplier ?R * sqrt (variance ?R)"
    using pos by (simp add: construct_feed_multiplier [OF assms])
  have z: "multiplier ?R * sqrt (variance ?R) = 0 \<longleftrightarrow> variance ?R = 0"
    using pos by (simp add: construct_feed_multiplier [OF assms])
  show ?thesis
    using len s z by (auto simp add: is_ready_def middle_def upper_def lower_def)
qed

theorem band_order_invariant_witness:
  "construct 3 2 = Inr sample_indicator
   \<and> int (length (window (feed [10, 10, 10, 13] sample_indicator))) \<le> 3
   \<and> is_ready (feed [10, 10, 10, 13] sample_indicator)
   \<and> fst (lower (feed [10, 10, 10, 13] sample_indicator)) = Inr (11 - 2 * sqrt 2)
   \<and> fst (middle (feed [10, 10, 10, 13] sample_indicator)) = Inr 11
   \<and> fst (upper (feed [10, 10, 10, 13] sample_indicator)) = Inr (11 + 2 * sqrt 2)
   \<and> 11 - 2 * sqrt 2 < 11 \<and> 11 < 11 + 2 * sqrt 2
   \<and> variance (feed [10, 10, 10, 13] sample_indicator) = 2"
  using band_order_invariant [OF construct_sample, of "[10, 10, 10, 13]"]
  by (simp add: construct_sample sample_band)

text \<open>
  C5. For an indicator constructed with period \<open>p\<close>, after \<open>p + j\<close> observations the
  window is exactly the last \<open>p\<close> of them, in the order they were fed, whatever \<open>j\<close>
  is; the mean, the variance and with them the three band values are computed over these
  \<open>p\<close> observations; and the next observation evicts the oldest of them.
\<close>

theorem sliding_window:
  assumes "construct p k = Inr r0" and "length obs = nat p + j"
  shows "window (feed obs r0) = drop j obs
       \<and> length (window (feed obs r0)) = nat p
       \<and> mean (feed obs r0) = sum_list (drop j obs) / of_int p
       \<and> variance (feed obs r0) =
           sum_list (map (\<lambda>x. (x - sum_list (drop j obs) / of_int p)\<^sup>2) (drop j obs)) / of_int p
       \<and> fst (middle (feed obs r0)) = Inr (mean (feed obs r0))
       \<and> fst (upper (feed obs r0)) =
           Inr (mean (feed obs r0) + k * sqrt (variance (feed obs r0)))
       \<and> fst (lower (feed obs r0)) =
           Inr (mean (feed obs r0) - k * sqrt (variance (feed obs r0)))
       \<and> window (observe x (feed obs r0)) = tl (drop j obs) @ [x]"
proof -
  let ?R = "feed obs r0"
  note pos = construct_pos [OF assms(1)]
  note per = construct_feed_period [OF assms(1), of obs]
  have w: "window ?R = drop j obs"
    using assms(2) by (simp add: construct_feed_window [OF assms(1)])
  have l: "length (window ?R) = nat p"
    using assms(2) by (simp add: w)
  have m: "mean ?R = sum_list (drop j obs) / of_int p"
    using pos by (simp add: mean_def l) (simp add: w)
  have rd: "is_ready ?R"
    using assms(2) by (simp add: is_ready_def construct_feed_ready [OF assms(1)])
  have ev: "window (observe x ?R) = tl (drop j obs) @ [x]"
    using pos l by (simp add: observe_def Let_def per) (simp add: w)
  have va: "variance ?R =
      sum_list (map (\<lambda>x. (x - sum_list (drop j obs) / of_int p)\<^sup>2) (drop j obs)) / of_int p"
    unfolding variance_def m per w ..
  show ?thesis
    using w l m rd ev va
    by (simp add: middle_def upper_def lower_def construct_feed_multiplier [OF assms(1)])
qed

theorem sliding_window_witness:
  "construct 3 2 = Inr sample_indicator
   \<and> length [10, 10, 10, 13 :: real] = nat 3 + 1
   \<and> window (feed [10, 10, 10, 13] sample_indicator) = [10, 10, 13]
   \<and> mean (feed [10, 10, 10, 13] sample_indicator) = 11
   \<and> variance (feed [10, 10, 10, 13] sample_indicator) = 2
   \<and> window (observe 7 (feed [10, 10, 10, 13] sample_indicator)) = [10, 13, 7]"
proof -
  have len: "length [10, 10, 10, 13 :: real] = nat 3 + 1" by simp
  from sliding_window [OF construct_sample len, of 7]
  show ?thesis
    by (simp add: construct_sample sample_band)
qed

text \<open>
  C6. When ready, the band of a constructed indicator is the reference band with the
  population variance: the middle is the sum of the window divided by \<open>period\<close>, the
  variance is the sum of the squared deviations from it divided by \<open>period\<close>, and the
  upper and lower values are the middle plus and minus the multiplier times the square
  root of the variance. So after exactly \<open>period\<close> observations of one value \<open>v\<close> the
  middle, the upper and the lower value are all \<open>v\<close>. And with period 3 and multiplier 2,
  after 10, 10, 10, 13 the window is 10, 10, 13, the mean is 11, the variance is 2 (not
  3, which dividing by \<open>period - 1\<close> would give), the upper value is \<open>11 + 2 * sqrt 2\<close>,
  which is 13.83 to two places, and the lower value is \<open>11 - 2 * sqrt 2\<close>, which is 8.17
  to two places.
\<close>

theorem population_band:
  assumes "construct p k = Inr r0"
  shows "(is_ready (feed obs r0) \<longrightarrow>
           fst (middle (feed obs r0)) = Inr (sum_list (window (feed obs r0)) / of_int p)
           \<and> variance (feed obs r0) =
               sum_list (map (\<lambda>x. (x - sum_list (window (feed obs r0)) / of_int p)\<^sup>2)
                          (window (feed obs r0))) / of_int p
           \<and> fst (upper (feed obs r0)) =
               Inr (sum_list (window (feed obs r0)) / of_int p
                    + k * sqrt (variance (feed obs r0)))
           \<and> fst (lower (feed obs r0)) =
               Inr (sum_list (window (feed obs r0)) / of_int p
                    - k * sqrt (variance (feed obs r0))))
       \<and> fst (middle (feed (replicate (nat p) v) r0)) = Inr v
       \<and> fst (upper (feed (replicate (nat p) v) r0)) = Inr v
       \<and> fst (lower (feed (replicate (nat p) v) r0)) = Inr v
       \<and> construct 3 2 = Inr sample_indicator
       \<and> window (feed [10, 10, 10, 13] sample_indicator) = [10, 10, 13]
       \<and> mean (feed [10, 10, 10, 13] sample_indicator) = 11
       \<and> variance (feed [10, 10, 10, 13] sample_indicator) = 2
       \<and> fst (middle (feed [10, 10, 10, 13] sample_indicator)) = Inr 11
       \<and> fst (upper (feed [10, 10, 10, 13] sample_indicator)) = Inr (11 + 2 * sqrt 2)
       \<and> fst (lower (feed [10, 10, 10, 13] sample_indicator)) = Inr (11 - 2 * sqrt 2)
       \<and> \<bar>11 + 2 * sqrt 2 - 1383 / 100\<bar> < 5 / 1000
       \<and> \<bar>11 - 2 * sqrt 2 - 817 / 100\<bar> < 5 / 1000"
proof -
  note pos = construct_pos [OF assms]
  have general: "is_ready (feed obs r0) \<longrightarrow>
           fst (middle (feed obs r0)) = Inr (sum_list (window (feed obs r0)) / of_int p)
           \<and> variance (feed obs r0) =
               sum_list (map (\<lambda>x. (x - sum_list (window (feed obs r0)) / of_int p)\<^sup>2)
                          (window (feed obs r0))) / of_int p
           \<and> fst (upper (feed obs r0)) =
               Inr (sum_list (window (feed obs r0)) / of_int p
                    + k * sqrt (variance (feed obs r0)))
           \<and> fst (lower (feed obs r0)) =
               Inr (sum_list (window (feed obs r0)) / of_int p
                    - k * sqrt (variance (feed obs r0)))"
  proof
    assume "is_ready (feed obs r0)"
    then have full: "nat p \<le> length obs"
      by (simp add: is_ready_def construct_feed_ready [OF assms])
    then have "length (window (feed obs r0)) = nat p"
      by (simp add: construct_feed_window [OF assms])
    then have m: "mean (feed obs r0) = sum_list (window (feed obs r0)) / of_int p"
      using pos by (simp add: mean_def)
    have va: "variance (feed obs r0) =
               sum_list (map (\<lambda>x. (x - sum_list (window (feed obs r0)) / of_int p)\<^sup>2)
                          (window (feed obs r0))) / of_int p"
      by (simp add: variance_def m construct_feed_period [OF assms])
    show "fst (middle (feed obs r0)) = Inr (sum_list (window (feed obs r0)) / of_int p)
           \<and> variance (feed obs r0) =
               sum_list (map (\<lambda>x. (x - sum_list (window (feed obs r0)) / of_int p)\<^sup>2)
                          (window (feed obs r0))) / of_int p
           \<and> fst (upper (feed obs r0)) =
               Inr (sum_list (window (feed obs r0)) / of_int p
                    + k * sqrt (variance (feed obs r0)))
           \<and> fst (lower (feed obs r0)) =
               Inr (sum_list (window (feed obs r0)) / of_int p
                    - k * sqrt (variance (feed obs r0)))"
      using \<open>is_ready (feed obs r0)\<close> va
      by (simp add: middle_def upper_def lower_def m construct_feed_multiplier [OF assms])
  qed
  let ?C = "feed (replicate (nat p) v) r0"
  have cw: "window ?C = replicate (nat p) v"
    by (simp add: construct_feed_window [OF assms])
  have cr: "is_ready ?C"
    by (simp add: is_ready_def construct_feed_ready [OF assms])
  have cm: "mean ?C = v"
    using pos by (simp add: mean_def cw sum_list_replicate)
  have cv: "variance ?C = 0"
    by (simp add: variance_def cw cm sum_list_replicate)
  have same: "fst (middle ?C) = Inr v \<and> fst (upper ?C) = Inr v \<and> fst (lower ?C) = Inr v"
    by (simp add: middle_def upper_def lower_def cr cm cv)
  have scenario: "window (feed [10, 10, 10, 13] sample_indicator) = [10, 10, 13]"
    by (simp add: sample_feeds)
  have approx: "\<bar>11 + 2 * sqrt 2 - 1383 / 100\<bar> < 5 / 1000"
    "\<bar>11 - 2 * sqrt 2 - 817 / 100\<bar> < 5 / 1000"
    using sqrt2_bounds by (simp_all add: abs_less_iff)
  show ?thesis
    using general same construct_sample scenario sample_band(2-6) approx by blast
qed

theorem population_band_witness:
  "construct 3 2 = Inr sample_indicator
   \<and> is_ready (feed [10, 10, 10, 13] sample_indicator)
   \<and> fst (middle (feed [10, 10, 10, 13] sample_indicator)) = Inr (33 / 3)
   \<and> fst (middle (feed [7, 7, 7] sample_indicator)) = Inr 7
   \<and> fst (upper (feed [7, 7, 7] sample_indicator)) = Inr 7
   \<and> fst (lower (feed [7, 7, 7] sample_indicator)) = Inr 7"
proof -
  have rep: "replicate 3 (7::real) = [7, 7, 7]"
    by (simp add: eval_nat_numeral)
  from population_band [OF construct_sample, of "[10, 10, 10, 13]" 7]
  show ?thesis
    by (simp add: construct_sample sample_band rep)
qed

text \<open>
  C7. Reads have no side effects. On a ready indicator each of \<^verbatim>\<open>middle()\<close>,
  \<^verbatim>\<open>upper()\<close> and \<^verbatim>\<open>lower()\<close> leaves the indicator (window, ready flag, and the mean and
  variance derived from them) exactly as it was, so does any sequence of such calls, and
  an accessor called after any such sequence returns the value it returns when called
  first.
\<close>

theorem reads_leave_state:
  assumes "is_ready r"
  shows "snd (middle r) = r \<and> snd (upper r) = r \<and> snd (lower r) = r
       \<and> reads as r = r
       \<and> read a (reads as r) = read a r
       \<and> (\<exists>v. fst (read a r) = Inr v)"
proof -
  have one: "snd (read b s) = s" for b s
    by (cases b) (simp_all add: middle_def upper_def lower_def)
  have many: "reads as s = s" for s
    by (induction as arbitrary: s) (simp_all add: reads_def one)
  have "\<exists>v. fst (read a r) = Inr v"
    using assms by (cases a) (simp_all add: middle_def upper_def lower_def)
  then show ?thesis
    using one [of Middle r] one [of Upper r] one [of Lower r] many [of r]
    by simp
qed

theorem reads_leave_state_witness:
  "is_ready (feed [10, 10, 10, 13] sample_indicator)
   \<and> snd (upper (feed [10, 10, 10, 13] sample_indicator)) = feed [10, 10, 10, 13] sample_indicator
   \<and> reads [Middle, Upper, Lower, Middle] (feed [10, 10, 10, 13] sample_indicator)
       = feed [10, 10, 10, 13] sample_indicator
   \<and> fst (read Upper (reads [Middle, Upper, Lower, Middle]
                          (feed [10, 10, 10, 13] sample_indicator)))
       = Inr (11 + 2 * sqrt 2)"
  using reads_leave_state [OF sample_band(1), of "[Middle, Upper, Lower, Middle]" Upper]
  by (simp add: sample_band)

end
